theory Spec2Isabelle
  imports Complex_Main "HOL-Library.Multiset" "HOL-Library.AList" "HOL-Library.Char_ord"
    "HOL-Library.List_Lexorder"
begin

section \<open>Frames\<close>

text \<open>
  A frame is the two-dimensional array that the pipelines hold after
  \<^verbatim>\<open>np.squeeze(tifffile.imread(f))\<close> (and, in \<^verbatim>\<open>register_multiplex_wsi.py\<close>, after the
  reduction of a multi-channel image to gray): a list of rows of pixel values.
  \<^verbatim>\<open>f.shape[0]\<close> is the number of rows and \<^verbatim>\<open>f.shape[1]\<close> the length of a row.
\<close>

type_synonym frame = "int list list"

definition shape0 :: "frame \<Rightarrow> nat" where
  "shape0 f = length f"

definition shape1 :: "frame \<Rightarrow> nat" where
  "shape1 f = (case f of [] \<Rightarrow> 0 | r # _ \<Rightarrow> length r)"

definition rect :: "frame \<Rightarrow> bool" where
  "rect f = list_all (\<lambda>r. length r = shape1 f) f"

text \<open>The exceptions and exits of the Python code that the model keeps as values.\<close>

datatype error = SystemExit | ValueError | IndexError | ZeroDivisionError | EstimatorError

subsection \<open>Padding to the largest frame size\<close>

text \<open>\<^verbatim>\<open>np.pad(f, [(0, n), (0, 0)], mode='constant')\<close>: \<open>n\<close> rows of zeros after the last row.\<close>

definition np_pad_rows :: "frame \<Rightarrow> nat \<Rightarrow> frame" where
  "np_pad_rows f n = f @ replicate n (replicate (shape1 f) 0)"

text \<open>\<^verbatim>\<open>np.pad(f, [(0, 0), (0, n)], mode='constant')\<close>: \<open>n\<close> zeros after the end of each row.\<close>

definition np_pad_cols :: "frame \<Rightarrow> nat \<Rightarrow> frame" where
  "np_pad_cols f n = map (\<lambda>r. r @ replicate n 0) f"

text \<open>
  \<^verbatim>\<open>pad_frame(f, xy)\<close> of \<^verbatim>\<open>register_multiplex_wsi.py\<close>; \<^verbatim>\<open>pad_frame(f1, mx, my)\<close> of
  \<^verbatim>\<open>reg_multiplex.py\<close> and \<^verbatim>\<open>reg.py\<close> is the same function with the pair passed as two
  arguments.
\<close>

definition pad_frame :: "frame \<Rightarrow> nat \<times> nat \<Rightarrow> frame" where
  "pad_frame f xy =
     (let f1 = (if shape0 f < fst xy then np_pad_rows f (fst xy - shape0 f) else f)
      in if shape1 f1 < snd xy then np_pad_cols f1 (snd xy - shape1 f1) else f1)"

subsection \<open>Decimation\<close>

text \<open>The slice \<^verbatim>\<open>xs[0::k]\<close>: the entries at the indices \<^verbatim>\<open>range(0, len(xs), k)\<close>.\<close>

definition strided :: "nat \<Rightarrow> 'a list \<Rightarrow> 'a list" where
  "strided k xs = map (\<lambda>i. xs ! (i * k)) [0..<(length xs + k - 1) div k]"

text \<open>\<^verbatim>\<open>im[0::down_sample, 0::down_sample]\<close>.\<close>

definition decimate :: "nat \<Rightarrow> frame \<Rightarrow> frame" where
  "decimate k f = map (strided k) (strided k f)"

text \<open>\<^verbatim>\<open>down_sample = max(im_fix.shape) // 10000 + 1\<close>.\<close>

definition down_sample :: "frame \<Rightarrow> nat" where
  "down_sample f = max (shape0 f) (shape1 f) div 10000 + 1"

subsection \<open>Shifts and their application\<close>

text \<open>
  The estimator's shift, error and phase are floating-point numbers; the model takes them
  as reals (no rounding error, no infinities, no NaN).
  \<^verbatim>\<open>shift * [down_sample, down_sample]\<close> scales both components.
\<close>

definition scale_shift :: "nat \<Rightarrow> real \<times> real \<Rightarrow> real \<times> real" where
  "scale_shift k s = (fst s * of_nat k, snd s * of_nat k)"

text \<open>\<^verbatim>\<open>astype(int)\<close> on a float: the fractional part is dropped (truncation toward zero).\<close>

definition astype_int :: "real \<Rightarrow> int" where
  "astype_int q = (if 0 \<le> q then \<lfloor>q\<rfloor> else \<lceil>q\<rceil>)"

definition shift_astype_int :: "real \<times> real \<Rightarrow> int \<times> int" where
  "shift_astype_int s = (astype_int (fst s), astype_int (snd s))"

text \<open>
  \<^verbatim>\<open>np.roll\<close> along one axis of length \<open>n\<close>: with \<^verbatim>\<open>offset = k % (n or 1)\<close>, the last
  \<open>offset\<close> entries move to the front and the others follow them.
\<close>

definition np_roll1 :: "int \<Rightarrow> 'a list \<Rightarrow> 'a list" where
  "np_roll1 k xs =
     (let n = length xs;
          offset = nat (k mod int (if n = 0 then 1 else n))
      in if offset = 0 then xs else drop (n - offset) xs @ take (n - offset) xs)"

text \<open>\<^verbatim>\<open>np.roll(im, s, [0,1])\<close>: axis 0 by the first component, axis 1 by the second.\<close>

definition np_roll :: "frame \<Rightarrow> int \<times> int \<Rightarrow> frame" where
  "np_roll f s = map (np_roll1 (snd s)) (np_roll1 (fst s) f)"

text \<open>\<^verbatim>\<open>np.roll(im, shift.astype(int), [0,1])\<close>, the shift application of all three scripts.\<close>

definition apply_shift :: "frame \<Rightarrow> real \<times> real \<Rightarrow> frame" where
  "apply_shift f s = np_roll f (shift_astype_int s)"

text \<open>
  The circular translation in the specification's words, entry by entry: the entry at
  \<open>(i, j)\<close> of the result is the entry of the input that lies \<open>(dy, dx)\<close> before it,
  counted modulo the frame's height and width.
\<close>

definition circular_translation :: "frame \<Rightarrow> int \<times> int \<Rightarrow> frame" where
  "circular_translation f d =
     map (\<lambda>i. map (\<lambda>j. f ! nat ((int i - fst d) mod int (shape0 f))
                        ! nat ((int j - snd d) mod int (shape1 f)))
                 [0..<shape1 f])
       [0..<shape0 f]"

section \<open>Input files\<close>

text \<open>
  An input file as the scripts see it: \<open>name\<close> is \<^verbatim>\<open>os.path.basename\<close> of its path,
  \<open>fsize\<close> its size in bytes (\<^verbatim>\<open>os.path.getsize\<close>, \<^verbatim>\<open>fstat.st_size\<close>), \<open>image\<close> the
  two-dimensional array read from it, whose shape is the one
  \<^verbatim>\<open>tif.pages[0].shape[0:2]\<close> declares. All files of a run lie in one folder, so the
  base name identifies the file; an output is written under the name of its input.
\<close>

record tif_file =
  name :: string
  fsize :: nat
  image :: frame

text \<open>\<^verbatim>\<open>s.split(c)\<close>.\<close>

fun split_on :: "char \<Rightarrow> string \<Rightarrow> string list" where
  "split_on c [] = [[]]"
| "split_on c (x # xs) =
     (if x = c then [] # split_on c xs
      else (case split_on c xs of [] \<Rightarrow> [[x]] | w # ws \<Rightarrow> (x # w) # ws))"

text \<open>
  \<^verbatim>\<open>os.path.basename(x).split('.')[-k]\<close>; the index is in range when the name has at
  least \<open>k\<close> fields, which \<open>has_fields\<close> tests, and raises IndexError otherwise.
\<close>

definition field_from_end :: "nat \<Rightarrow> tif_file \<Rightarrow> string" where
  "field_from_end k x = (let ps = split_on CHR ''.'' (name x) in ps ! (length ps - k))"

definition has_fields :: "nat \<Rightarrow> tif_file \<Rightarrow> bool" where
  "has_fields k x = (k \<le> length (split_on CHR ''.'' (name x)))"

definition round_id :: "tif_file \<Rightarrow> string" where
  "round_id x = field_from_end 3 x"

definition marker :: "tif_file \<Rightarrow> string" where
  "marker x = field_from_end 2 x"

text \<open>\<^verbatim>\<open>str.lower\<close> on the letters that can make up \<^verbatim>\<open>'dapi'\<close>.\<close>

definition lower_char :: "char \<Rightarrow> char" where
  "lower_char c = (if CHR ''A'' \<le> c \<and> c \<le> CHR ''Z'' then char_of (of_char c + (32::nat)) else c)"

definition is_dapi :: "tif_file \<Rightarrow> bool" where
  "is_dapi x = (map lower_char (marker x) = ''dapi'')"

text \<open>\<^verbatim>\<open>str(n)\<close> for a length.\<close>

fun str_nat :: "nat \<Rightarrow> string" where
  "str_nat n =
     (if n < 10 then [char_of (48 + n)] else str_nat (n div 10) @ [char_of (48 + n mod 10)])"

declare str_nat.simps [simp del]

text \<open>\<^verbatim>\<open>max(xs)\<close>: ValueError on the empty list.\<close>

definition py_max :: "'a::linorder list \<Rightarrow> error + 'a" where
  "py_max xs = (case xs of [] \<Rightarrow> Inl ValueError | x # ys \<Rightarrow> Inr (fold max ys x))"

text \<open>
  The list comprehension that fills \<^verbatim>\<open>antigens[r]\<close> (\<^verbatim>\<open>tifs[r]\<close> in
  \<^verbatim>\<open>reg_multiplex.py\<close>). The dictionary is only read at the round id of an input file,
  which is one of its keys.
\<close>

definition antigens :: "tif_file list \<Rightarrow> string \<Rightarrow> tif_file list" where
  "antigens tif_files r = filter (\<lambda>x. round_id x = r \<and> \<not> is_dapi x) tif_files"

subsection \<open>The canonical frame size\<close>

text \<open>\<^verbatim>\<open>get_max_frame_xy\<close> of \<^verbatim>\<open>register_multiplex_wsi.py\<close>.\<close>

definition get_max_frame_xy :: "tif_file list \<Rightarrow> error + nat \<times> nat" where
  "get_max_frame_xy tif_files =
     (case py_max (map (\<lambda>f. shape0 (image f)) tif_files) of
        Inl e \<Rightarrow> Inl e
      | Inr mx \<Rightarrow>
          (case py_max (map (\<lambda>f. shape1 (image f)) tif_files) of
             Inl e \<Rightarrow> Inl e
           | Inr my \<Rightarrow> Inr (mx, my)))"

text \<open>\<^verbatim>\<open>get_max_frame_size\<close> of \<^verbatim>\<open>reg.py\<close>: a running maximum that starts at 0.\<close>

definition get_max_frame_size :: "tif_file list \<Rightarrow> nat \<times> nat" where
  "get_max_frame_size tif_files =
     (fold (\<lambda>f maxx. max maxx (shape0 (image f))) tif_files 0,
      fold (\<lambda>f maxy. max maxy (shape1 (image f))) tif_files 0)"

text \<open>
  \<^verbatim>\<open>get_max_frame_size\<close> of \<^verbatim>\<open>reg_multiplex.py\<close>: the same maximum, and a printed
  ratio that divides by each maximum.
\<close>

definition get_max_frame_size_multiplex :: "tif_file list \<Rightarrow> error + nat \<times> nat" where
  "get_max_frame_size_multiplex tif_files =
     (let m = get_max_frame_size tif_files
      in if fst m = 0 \<or> snd m = 0 then Inl ZeroDivisionError else Inr m)"

text \<open>\<^verbatim>\<open>get_gray_frame(f, xy)\<close>: the frame of the file, padded.\<close>

definition get_gray_frame :: "tif_file \<Rightarrow> nat \<times> nat \<Rightarrow> frame" where
  "get_gray_frame f xy = pad_frame (image f) xy"


section \<open>Registration\<close>

text \<open>
  The estimator (\<^verbatim>\<open>phase_cross_correlation\<close>, \<^verbatim>\<open>register_translation\<close>) is a library
  function: the model takes it as a parameter that, given the fixed frame, the moving
  frame and the upsample factor, either raises or returns a shift, an error and a phase.
\<close>

type_synonym estimator = "frame \<Rightarrow> frame \<Rightarrow> nat \<Rightarrow> error + ((real \<times> real) \<times> real \<times> real)"

text \<open>The files written so far, in the order of the writes, and the \<^verbatim>\<open>errors\<close> dictionary.\<close>

record state =
  written :: "(string \<times> frame) list"
  errors :: "(string \<times> real) list"

text \<open>
  One pass of the loop \<^verbatim>\<open>while dapis:\<close> after \<^verbatim>\<open>mov_dapi = dapis.pop()\<close>: the moving
  reference frame is read and decimated, the shift is estimated once and scaled, then the
  reference frame and every other frame of its round are rolled by it and written. The
  result is the list of the writes and the error of the round.
\<close>

definition register_round ::
  "estimator \<Rightarrow> tif_file list \<Rightarrow> nat \<times> nat \<Rightarrow> nat \<Rightarrow> frame \<Rightarrow> tif_file
     \<Rightarrow> error + ((string \<times> frame) list \<times> real)" where
  "register_round est tif_files xy ds im_fix_small mov_dapi =
     (let mov_frames = antigens tif_files (round_id mov_dapi);
          im_mov = get_gray_frame mov_dapi xy;
          im_mov_small = decimate ds im_mov
      in case est im_fix_small im_mov_small ds of
           Inl e \<Rightarrow> Inl e
         | Inr (shift0, error, diffphase) \<Rightarrow>
             (let shift = scale_shift ds shift0
              in Inr ((name mov_dapi, apply_shift im_mov shift)
                      # map (\<lambda>f. (name f, apply_shift (get_gray_frame f xy) shift)) mov_frames,
                      error)))"

text \<open>
  The loop \<^verbatim>\<open>while dapis:\<close>. \<^verbatim>\<open>dapis.pop()\<close> takes the last entry of the list. An
  exception of the estimator leaves the loop with the state reached so far.
\<close>

function register_loop ::
  "estimator \<Rightarrow> tif_file list \<Rightarrow> nat \<times> nat \<Rightarrow> nat \<Rightarrow> frame \<Rightarrow> tif_file list \<Rightarrow> state
     \<Rightarrow> state \<times> error option" where
  "register_loop est tif_files xy ds im_fix_small dapis st =
     (if dapis = [] then (st, None)
      else (let mov_dapi = last dapis; dapis' = butlast dapis
            in case register_round est tif_files xy ds im_fix_small mov_dapi of
                 Inl e \<Rightarrow> (st, Some e)
               | Inr (ws, error) \<Rightarrow>
                   register_loop est tif_files xy ds im_fix_small dapis'
                     \<lparr>written = written st @ ws,
                      errors = AList.update (round_id mov_dapi) error (errors st)\<rparr>))"
  by pat_completeness auto
termination
  by (relation "measure (\<lambda>(est, tif_files, xy, ds, im_fix_small, dapis, st). length dapis)") auto

declare register_loop.simps [simp del]

text \<open>
  What a run leaves behind: the files written, the name of the fixed reference frame (as
  logged) once it is chosen, and either the error that ended the run or the displacement
  report in the order it is printed.
\<close>

record run =
  outputs :: "(string \<times> frame) list"
  fixed_dapi :: "string option"
  displacements :: "error + (string \<times> real) list"

definition aborted :: "error \<Rightarrow> run" where
  "aborted e = \<lparr>outputs = [], fixed_dapi = None, displacements = Inl e\<rparr>"

text \<open>
  The part of \<^verbatim>\<open>main\<close> shared by \<^verbatim>\<open>register_multiplex_wsi.py\<close> (from "write fixed
  round to destination" on) and \<^verbatim>\<open>reg_multiplex.py\<close> (from "write fixed files" on): the
  fixed round is popped from the end of \<^verbatim>\<open>dapis\<close> and written padded, every round starts
  with error 0, the loop runs, and the errors are printed sorted by
  \<^verbatim>\<open>sorted(errors.items(), key=lambda item: item[1], reverse=True)\<close>.
\<close>

definition register_rounds ::
  "estimator \<Rightarrow> string list \<Rightarrow> tif_file list \<Rightarrow> tif_file list \<Rightarrow> nat \<times> nat \<Rightarrow> run" where
  "register_rounds est rounds tif_files dapis xy =
     (let fix_dapi = last dapis;
          dapis' = butlast dapis;
          fix_frames = antigens tif_files (round_id fix_dapi);
          im_fix = get_gray_frame fix_dapi xy;
          w = map (\<lambda>f. (name f, get_gray_frame f xy)) fix_frames @ [(name fix_dapi, im_fix)];
          ds = down_sample im_fix;
          im_fix_small = decimate ds im_fix;
          errors0 = map (\<lambda>r. (r, 0)) rounds
      in case register_loop est tif_files xy ds im_fix_small dapis'
                \<lparr>written = w, errors = errors0\<rparr> of
           (st, Some e) \<Rightarrow>
             \<lparr>outputs = written st, fixed_dapi = Some (name fix_dapi), displacements = Inl e\<rparr>
         | (st, None) \<Rightarrow>
             \<lparr>outputs = written st, fixed_dapi = Some (name fix_dapi),
              displacements = Inr (sort_key (\<lambda>item. - snd item) (errors st))\<rparr>)"

subsection \<open>The memory checks\<close>

text \<open>
  \<^verbatim>\<open>mem_check\<close> of \<^verbatim>\<open>register_multiplex_wsi.py\<close>: twice the largest file size against
  80% of the available memory. The products are taken exactly.
\<close>

definition mem_check :: "nat \<Rightarrow> tif_file list \<Rightarrow> error + bool" where
  "mem_check available tif_files =
     (case py_max (map fsize tif_files) of
        Inl e \<Rightarrow> Inl e
      | Inr msize \<Rightarrow>
          Inr (\<not> (real (msize * 2) > real available * (80 / 100))))"

text \<open>
  The check of \<^verbatim>\<open>reg_multiplex.py\<close> and \<^verbatim>\<open>reg.py\<close>: the sizes of \<^verbatim>\<open>tif_files[0]\<close> and
  \<^verbatim>\<open>tif_files[1]\<close> against 75% of the available memory.
\<close>

definition mem_check_first_two :: "nat \<Rightarrow> tif_file list \<Rightarrow> error + bool" where
  "mem_check_first_two available tif_files =
     (if length tif_files < 2 then Inl IndexError
      else (let tsz1 = fsize (tif_files ! 0); tsz2 = fsize (tif_files ! 1)
            in Inr (\<not> (real (tsz1 + tsz2) > real available * (75 / 100)))))"

subsection \<open>The three scripts\<close>

text \<open>
  \<^verbatim>\<open>main\<close> of \<^verbatim>\<open>register_multiplex_wsi.py\<close>. \<open>tif_files\<close> is the list that \<^verbatim>\<open>glob\<close>
  returns, in its order; \<open>available\<close> is \<^verbatim>\<open>psutil.virtual_memory().available\<close>;
  \<open>list_set\<close> is \<^verbatim>\<open>list(set(...))\<close>, which lists the distinct round ids in an order
  of Python's choosing.
\<close>

definition main_wsi ::
  "estimator \<Rightarrow> (string list \<Rightarrow> string list) \<Rightarrow> nat \<Rightarrow> tif_file list \<Rightarrow> run" where
  "main_wsi est list_set available tif_files =
     (case mem_check available tif_files of
        Inl e \<Rightarrow> aborted e
      | Inr enough \<Rightarrow>
          if \<not> enough then aborted SystemExit
          else if \<not> list_all (has_fields 3) tif_files then aborted IndexError
          else (let rounds = list_set (map round_id tif_files);
                    dapis = filter is_dapi tif_files
                in case py_max rounds of
                     Inl e \<Rightarrow> aborted e
                   | Inr max_rounds \<Rightarrow>
                       if \<not> (str_nat (length dapis) = max_rounds) then aborted SystemExit
                       else if length dapis < 2 then aborted SystemExit
                       else (case get_max_frame_xy tif_files of
                               Inl e \<Rightarrow> aborted e
                             | Inr xy \<Rightarrow> register_rounds est rounds tif_files dapis xy)))"

text \<open>
  \<^verbatim>\<open>main\<close> of \<^verbatim>\<open>reg_multiplex.py\<close>. The comparison of the number of reference frames
  with \<^verbatim>\<open>max_rounds\<close> only prints a message here, so the model has no branch for it.
\<close>

definition main_multiplex ::
  "estimator \<Rightarrow> (string list \<Rightarrow> string list) \<Rightarrow> nat \<Rightarrow> tif_file list \<Rightarrow> run" where
  "main_multiplex est list_set available tif_files =
     (case mem_check_first_two available tif_files of
        Inl e \<Rightarrow> aborted e
      | Inr enough \<Rightarrow>
          if \<not> enough then aborted SystemExit
          else if \<not> list_all (has_fields 3) tif_files then aborted IndexError
          else (let rounds = list_set (map round_id tif_files);
                    dapis = filter is_dapi tif_files
                in case py_max rounds of
                     Inl e \<Rightarrow> aborted e
                   | Inr max_rounds \<Rightarrow>
                       if length dapis < 2 then aborted SystemExit
                       else (case get_max_frame_size_multiplex tif_files of
                               Inl e \<Rightarrow> aborted e
                             | Inr xy \<Rightarrow> register_rounds est rounds tif_files dapis xy)))"

text \<open>\<^verbatim>\<open>register_frame(im1, im2)\<close> of \<^verbatim>\<open>reg.py\<close>.\<close>

definition register_frame :: "estimator \<Rightarrow> frame \<Rightarrow> frame \<Rightarrow> error + frame \<times> frame" where
  "register_frame est im1 im2 =
     (let ds = down_sample im1;
          im1d = decimate ds im1;
          im2d = decimate ds im2
      in case est im1d im2d ds of
           Inl e \<Rightarrow> Inl e
         | Inr (shift0, error, diffphase) \<Rightarrow>
             Inr (im1, apply_shift im2 (scale_shift ds shift0)))"

text \<open>\<^verbatim>\<open>main\<close> of \<^verbatim>\<open>reg.py\<close>, which expects exactly two files and prints no report.\<close>

definition main_reg :: "estimator \<Rightarrow> nat \<Rightarrow> tif_file list \<Rightarrow> run" where
  "main_reg est available tif_files =
     (if \<not> (length tif_files = 2) then aborted SystemExit
      else (case mem_check_first_two available tif_files of
              Inl e \<Rightarrow> aborted e
            | Inr enough \<Rightarrow>
                if \<not> enough then aborted SystemExit
                else (let m = get_max_frame_size tif_files;
                          im_src = pad_frame (image (tif_files ! 0)) m;
                          im_dst = pad_frame (image (tif_files ! 1)) m
                      in case register_frame est im_src im_dst of
                           Inl e \<Rightarrow> aborted e
                         | Inr (im1, im2) \<Rightarrow>
                             \<lparr>outputs = [(name (tif_files ! 0), im1), (name (tif_files ! 1), im2)],
                              fixed_dapi = None, displacements = Inr []\<rparr>)))"

section \<open>Sample inputs\<close>

text \<open>
  A small input set for the worked examples: two rounds, each with a reference (DAPI)
  frame and one marker frame, of different sizes.
\<close>

definition sample_dapi1 :: tif_file where
  "sample_dapi1 = \<lparr>name = ''S.1.DAPI.tif'', fsize = 100, image = [[1, 2], [3, 4]]\<rparr>"


definition sample_dapi2 :: tif_file where
  "sample_dapi2 = \<lparr>name = ''S.2.DAPI.tif'', fsize = 120, image = [[1, 1], [1, 1], [1, 1]]\<rparr>"



text \<open>
  Stand-ins for the library estimator, which the model takes as a parameter: one that
  returns the shift \<open>(1, -1)\<close> with error \<open>1/2\<close> for every pair, and a wrapper that
  raises on a pair with a constant frame, as the specification asks of its estimator.
\<close>

definition sample_estimator :: estimator where
  "sample_estimator = (\<lambda>im_fix im_mov k. Inr ((1, - 1), 1 / 2, 0))"




text \<open>
  A marker frame of a third round that has no reference frame, and a second reference
  frame in round 2: inputs whose number of reference frames differs from the number of
  rounds.
\<close>

definition sample_cd3_round3 :: tif_file where
  "sample_cd3_round3 = \<lparr>name = ''S.3.CD3.tif'', fsize = 100, image = [[5, 6, 7]]\<rparr>"

definition second_dapi2 :: tif_file where
  "second_dapi2 = \<lparr>name = ''T.2.DAPI.tif'', fsize = 100, image = [[1, 2], [3, 4]]\<rparr>"






section \<open>Properties of rolling\<close>

lemma length_np_roll1: "length (np_roll1 k xs) = length xs"
  by (simp add: np_roll1_def Let_def)

lemma mset_np_roll1: "mset (np_roll1 k xs) = mset xs"
proof -
  have "mset (drop m xs @ take m xs) = mset xs" for m
    by (metis append_take_drop_id mset_append union_commute)
  then show ?thesis
    by (simp add: np_roll1_def Let_def del: mset_append)
qed

lemma set_np_roll1: "set (np_roll1 k xs) = set xs"
  using mset_np_roll1 [of k xs] by (metis set_mset_mset)

lemma roll_index:
  fixes off n i :: nat and k :: int
  assumes "int off = k mod int n" "off < n" "i < n"
  shows "nat ((int i - k) mod int n) = (if i < off then n - off + i else i - off)"
proof -
  have eq: "(int i - k) mod int n = (int i - int off) mod int n"
    using assms(1) by (metis mod_diff_right_eq)
  show ?thesis
  proof (cases "i < off")
    case True
    have "(int i - int off) mod int n = (int i - int off + int n) mod int n"
      by simp
    also have "\<dots> = int i - int off + int n"
      using True assms(2) by (intro mod_pos_pos_trivial) auto
    finally have "(int i - k) mod int n = int (n - off + i)"
      using eq assms(2) by simp
    then show ?thesis using True by (metis nat_int)
  next
    case False
    then have "(int i - int off) mod int n = int i - int off"
      using assms(3) by (intro mod_pos_pos_trivial) auto
    then have "(int i - k) mod int n = int (i - off)"
      using eq False by simp
    then show ?thesis using False by (metis nat_int)
  qed
qed

lemma nth_np_roll1:
  assumes "i < length xs"
  shows "np_roll1 k xs ! i = xs ! nat ((int i - k) mod int (length xs))"
proof -
  define n where "n = length xs"
  define off where "off = nat (k mod int n)"
  have n: "0 < n" "i < n" using assms by (auto simp: n_def)
  have off: "int off = k mod int n" "off < n"
    using n by (simp_all add: off_def nat_less_iff)
  have idx: "nat ((int i - k) mod int n) = (if i < off then n - off + i else i - off)"
    by (rule roll_index [OF off n(2)])
  have roll: "np_roll1 k xs = (if off = 0 then xs else drop (n - off) xs @ take (n - off) xs)"
    using n by (simp add: np_roll1_def Let_def n_def off_def)
  show ?thesis
  proof (cases "off = 0")
    case True
    then show ?thesis using roll idx by (simp add: n_def)
  next
    case False
    then show ?thesis using roll idx n off(2)
      by (auto simp: nth_append n_def add.commute)
  qed
qed


lemma nat_mod_less: "i < n \<Longrightarrow> nat (a mod int n) < n"
proof -
  assume "i < n"
  then have "0 < int n" by simp
  then have "0 \<le> a mod int n" "a mod int n < int n"
    by (rule pos_mod_sign, rule pos_mod_bound)
  then show ?thesis by (simp add: nat_less_iff)
qed

lemma shape1_eq: "g \<noteq> [] \<Longrightarrow> \<forall>r\<in>set g. length r = w \<Longrightarrow> shape1 g = w"
  by (cases g) (auto simp: shape1_def)

lemma rect_iff: "rect f \<longleftrightarrow> (\<forall>r\<in>set f. length r = shape1 f)"
  by (simp add: rect_def list_all_iff)

lemma rectI: "\<forall>r\<in>set g. length r = w \<Longrightarrow> rect g"
  by (cases g) (auto simp: rect_iff shape1_def)

lemma shape0_np_roll: "shape0 (np_roll f s) = shape0 f"
  by (simp add: np_roll_def shape0_def length_np_roll1)

lemma rows_np_roll:
  assumes "rect f"
  shows "\<forall>r\<in>set (np_roll f s). length r = shape1 f"
  using assms by (auto simp: np_roll_def set_np_roll1 length_np_roll1 rect_iff)

lemma shape1_np_roll:
  assumes "rect f"
  shows "shape1 (np_roll f s) = shape1 f"
proof (cases "f = []")
  case True
  then show ?thesis by (simp add: np_roll_def np_roll1_def)
next
  case False
  then have "np_roll f s \<noteq> []"
    using shape0_np_roll [of f s] by (auto simp: shape0_def)
  then show ?thesis using rows_np_roll [OF assms] by (rule shape1_eq)
qed

lemma rect_np_roll: "rect f \<Longrightarrow> rect (np_roll f s)"
  using rows_np_roll by (rule rectI)

lemma mset_concat_map:
  assumes "\<And>r. mset (g r) = mset r"
  shows "mset (concat (map g xss)) = mset (concat xss)"
  by (induction xss) (simp_all add: assms)

lemma mset_concat_perm:
  assumes "mset xss = mset yss"
  shows "mset (concat xss) = mset (concat yss)"
proof -
  have "mset (concat zss) = \<Sum>\<^sub># (image_mset mset (mset zss))" for zss :: "'a list list"
    by (induction zss) simp_all
  then show ?thesis using assms by simp
qed

lemma mset_np_roll: "mset (concat (np_roll f s)) = mset (concat f)"
  unfolding np_roll_def
  by (simp add: mset_concat_map mset_np_roll1 mset_concat_perm [of "np_roll1 (fst s) f" f])

lemma nth_np_roll:
  assumes "rect f" "i < shape0 f" "j < shape1 f"
  shows "np_roll f s ! i ! j
    = f ! nat ((int i - fst s) mod int (shape0 f)) ! nat ((int j - snd s) mod int (shape1 f))"
proof -
  let ?i' = "nat ((int i - fst s) mod int (shape0 f))"
  have i': "?i' < length f"
    using assms(2) by (simp add: shape0_def nat_mod_less)
  have row: "length (f ! ?i') = shape1 f"
    using assms(1) i' by (simp add: rect_iff)
  have "np_roll f s ! i = np_roll1 (snd s) (f ! ?i')"
    using assms(2) by (simp add: np_roll_def shape0_def length_np_roll1 nth_np_roll1)
  then show ?thesis using assms(3) row by (simp add: nth_np_roll1)
qed

lemma np_roll_circular:
  assumes "rect f"
  shows "np_roll f s = circular_translation f s"
proof (rule nth_equalityI)
  show "length (np_roll f s) = length (circular_translation f s)"
    using shape0_np_roll [of f s] by (simp add: circular_translation_def shape0_def)
next
  fix i assume "i < length (np_roll f s)"
  then have i: "i < shape0 f" using shape0_np_roll [of f s] by (simp add: shape0_def)
  then have "np_roll f s ! i \<in> set (np_roll f s)"
    using shape0_np_roll [of f s] by (simp add: shape0_def)
  then have len: "length (np_roll f s ! i) = shape1 f"
    using rows_np_roll [OF assms] by blast
  show "np_roll f s ! i = circular_translation f s ! i"
  proof (rule nth_equalityI)
    show "length (np_roll f s ! i) = length (circular_translation f s ! i)"
      using i len by (simp add: circular_translation_def)
  next
    fix j assume "j < length (np_roll f s ! i)"
    then have j: "j < shape1 f" using len by simp
    show "np_roll f s ! i ! j = circular_translation f s ! i ! j"
      using i j nth_np_roll [OF assms i j] by (simp add: circular_translation_def)
  qed
qed

lemma np_roll_forward:
  assumes "rect f" "i < shape0 f" "j < shape1 f"
  shows "np_roll f s ! nat ((int i + fst s) mod int (shape0 f))
                     ! nat ((int j + snd s) mod int (shape1 f)) = f ! i ! j"
proof -
  let ?i' = "nat ((int i + fst s) mod int (shape0 f))"
  let ?j' = "nat ((int j + snd s) mod int (shape1 f))"
  have b: "?i' < shape0 f" "?j' < shape1 f"
    using assms(2,3) by (simp_all add: nat_mod_less)
  have "(int ?i' - fst s) mod int (shape0 f) = int i"
    using assms(2) by (simp add: mod_diff_left_eq)
  moreover have "(int ?j' - snd s) mod int (shape1 f) = int j"
    using assms(3) by (simp add: mod_diff_left_eq)
  ultimately show ?thesis
    using nth_np_roll [OF assms(1) b] by simp
qed

lemma astype_int_of_int: "astype_int (of_int k) = k"
  by (simp add: astype_int_def)

section \<open>Padding\<close>


lemma rect_rowD: "rect f \<Longrightarrow> r \<in> set f \<Longrightarrow> length r = shape1 f"
  by (simp add: rect_iff)













section \<open>The canonical size and decimation\<close>

lemma py_max_Max: "xs \<noteq> [] \<Longrightarrow> py_max xs = Inr (Max (set xs))"
  by (cases xs) (simp_all add: py_max_def Max.set_eq_fold [symmetric])



lemma Max_insert_0: "finite A \<Longrightarrow> A \<noteq> {} \<Longrightarrow> Max (insert (0::nat) A) = Max A"
  by simp





lemma length_strided: "length (strided k xs) = (length xs + k - 1) div k"
  by (simp add: strided_def)




lemma stride_bound:
  assumes "0 < k" "i < (n + k - 1) div k"
  shows "i * k < (n::nat)"
proof (rule ccontr)
  assume "\<not> i * k < n"
  then have "n + k - 1 < (i + 1) * k" using assms(1) by simp
  then have "(n + k - 1) div k < i + 1"
    using assms(1) by (simp add: div_less_iff_less_mult)
  then show False using assms(2) by simp
qed


lemma rows_decimate:
  assumes "rect f" "0 < k"
  shows "\<forall>r\<in>set (decimate k f). length r = (shape1 f + k - 1) div k"
proof -
  have "r \<in> set f" if "r \<in> set (strided k f)" for r
    using that stride_bound [OF assms(2)] by (auto simp: strided_def)
  then show ?thesis
    using assms(1) by (auto simp: decimate_def length_strided rect_iff)
qed


lemma rect_decimate: "rect f \<Longrightarrow> 0 < k \<Longrightarrow> rect (decimate k f)"
  using rows_decimate by (rule rectI)


lemma down_sample_pos: "0 < down_sample f"
  by (simp add: down_sample_def)

section \<open>The registration loop\<close>











section \<open>The scripts\<close>











section \<open>Runs that reach the registration\<close>





section \<open>The displacement report\<close>




section \<open>Outputs of the scripts\<close>








section \<open>Exits before the registration\<close>

lemma empty_input_aborts:
  "main_wsi est list_set available [] = aborted ValueError"
  "main_multiplex est list_set available [] = aborted IndexError"
  "main_reg est available [] = aborted SystemExit"
  by (simp_all add: main_wsi_def mem_check_def py_max_def main_multiplex_def
      mem_check_first_two_def main_reg_def)

lemma main_wsi_exits_on_memory:
  "mem_check available tif_files = Inr False
    \<Longrightarrow> main_wsi est list_set available tif_files = aborted SystemExit"
  by (simp add: main_wsi_def)

lemma main_wsi_exits_on_count:
  assumes "mem_check available tif_files = Inr True" "list_all (has_fields 3) tif_files"
    and "py_max (list_set (map round_id tif_files)) = Inr max_rounds"
    and "str_nat (length (filter is_dapi tif_files)) \<noteq> max_rounds"
  shows "main_wsi est list_set available tif_files = aborted SystemExit"
  using assms by (simp add: main_wsi_def Let_def)

lemma main_wsi_memory_budget:
  assumes "f \<in> set tif_files" "g \<in> set tif_files"
    and "real (fsize f + fsize g) > real available * (80 / 100)"
  shows "main_wsi est list_set available tif_files = aborted SystemExit"
proof -
  let ?m = "Max (set (map fsize tif_files))"
  have ne: "map fsize tif_files \<noteq> []" using assms(1) by auto
  have "fsize f \<le> ?m" "fsize g \<le> ?m"
    using assms(1,2) by (auto intro!: Max_ge)
  then have "fsize f + fsize g \<le> ?m * 2" by simp
  then have "real (fsize f + fsize g) \<le> real (?m * 2)"
    by (rule of_nat_mono)
  then have "real (?m * 2) > real available * (80 / 100)"
    using assms(3) by linarith
  then have "mem_check available tif_files = Inr False"
    unfolding mem_check_def py_max_Max [OF ne] by simp
  then show ?thesis by (rule main_wsi_exits_on_memory)
qed

lemma main_reg_memory_budget:
  assumes "tif_files = [f, g]"
    and "real (fsize f + fsize g) > real available * (75 / 100)"
  shows "main_reg est available tif_files = aborted SystemExit"
  using assms by (simp add: main_reg_def mem_check_first_two_def)

section \<open>Sample runs\<close>








lemma mismatch_run_multiplex:
  "main_multiplex sample_estimator remdups 1000 [sample_dapi1, sample_dapi2, sample_cd3_round3]
       = \<lparr>outputs =
            [(''S.2.DAPI.tif'', [[1, 1, 0], [1, 1, 0], [1, 1, 0]]),
             (''S.1.DAPI.tif'', [[0, 0, 0], [2, 0, 1], [4, 0, 3]])],
          fixed_dapi = Some ''S.2.DAPI.tif'',
          displacements = Inr [(''1'', 1 / 2), (''2'', 0), (''3'', 0)]\<rparr>"
  by code_simp

lemma mismatch_run_wsi:
  "main_wsi sample_estimator remdups 1000 [sample_dapi1, sample_dapi2, sample_cd3_round3]
       = aborted SystemExit"
proof (rule main_wsi_exits_on_count)
  show "mem_check 1000 [sample_dapi1, sample_dapi2, sample_cd3_round3] = Inr True"
    by code_simp
  show "list_all (has_fields 3) [sample_dapi1, sample_dapi2, sample_cd3_round3]"
    by code_simp
  show "py_max (remdups (map round_id [sample_dapi1, sample_dapi2, sample_cd3_round3]))
      = Inr ''3''"
    by code_simp
  show "str_nat (length (filter is_dapi [sample_dapi1, sample_dapi2, sample_cd3_round3]))
      \<noteq> ''3''"
    by code_simp
qed

lemma same_round_run_wsi:
  "main_wsi sample_estimator remdups 1000 [second_dapi2, sample_dapi2]
       = \<lparr>outputs =
            [(''S.2.DAPI.tif'', [[1, 1], [1, 1], [1, 1]]),
             (''T.2.DAPI.tif'', [[0, 0], [2, 1], [4, 3]])],
          fixed_dapi = Some ''S.2.DAPI.tif'',
          displacements = Inr [(''2'', 1 / 2)]\<rparr>"
  by code_simp


section \<open>The claims\<close>





text \<open>
  C3, as amended. For every frame and every shift \<open>(dy, dx)\<close>, shift application is the
  circular (wraparound) translation of the frame along both axes by the shift truncated
  toward zero to whole pixels, which is the shift itself when it is integral: the entry
  at \<open>(i, j)\<close> moves to \<open>((i + dy') mod height, (j + dx') mod width)\<close>, so content that
  leaves through one edge comes back at the opposite edge and nothing is clipped.
\<close>

theorem apply_shift_circular:
  assumes "rect f"
  shows "apply_shift f s = circular_translation f (astype_int (fst s), astype_int (snd s))
    \<and> (\<forall>i j. i < shape0 f \<and> j < shape1 f \<longrightarrow>
          apply_shift f s ! nat ((int i + astype_int (fst s)) mod int (shape0 f))
                          ! nat ((int j + astype_int (snd s)) mod int (shape1 f)) = f ! i ! j)
    \<and> (\<forall>a b. s = (of_int a, of_int b) \<longrightarrow> apply_shift f s = circular_translation f (a, b))"
proof (intro conjI allI impI)
  show "apply_shift f s = circular_translation f (astype_int (fst s), astype_int (snd s))"
    using np_roll_circular [OF assms] by (simp add: apply_shift_def shift_astype_int_def)
next
  fix i j assume "i < shape0 f \<and> j < shape1 f"
  then show "apply_shift f s ! nat ((int i + astype_int (fst s)) mod int (shape0 f))
                          ! nat ((int j + astype_int (snd s)) mod int (shape1 f)) = f ! i ! j"
    using np_roll_forward [OF assms, of i j "shift_astype_int s"]
    by (simp add: apply_shift_def shift_astype_int_def)
next
  fix a b assume "s = (of_int a, of_int b)"
  then show "apply_shift f s = circular_translation f (a, b)"
    using np_roll_circular [OF assms]
    by (simp add: apply_shift_def shift_astype_int_def astype_int_of_int)
qed

theorem apply_shift_circular_witness:
  "rect [[1, 2, 3], [4, 5, 6], [7, 8, 9], [10, 11, 12]]
   \<and> apply_shift [[1, 2, 3], [4, 5, 6], [7, 8, 9], [10, 11, 12]] (27 / 10, - 16 / 10)
       = circular_translation [[1, 2, 3], [4, 5, 6], [7, 8, 9], [10, 11, 12]] (2, - 1)
   \<and> apply_shift [[1, 2, 3], [4, 5, 6], [7, 8, 9], [10, 11, 12]] (27 / 10, - 16 / 10) ! 1 ! 2
       = [[1, 2, 3], [4, 5, 6], [7, 8, 9], [10, 11, 12]] ! 3 ! 0
   \<and> apply_shift [[1, 2, 3], [4, 5, 6], [7, 8, 9], [10, 11, 12]] (3, - 2)
       = circular_translation [[1, 2, 3], [4, 5, 6], [7, 8, 9], [10, 11, 12]] (3, - 2)"
proof -
  let ?F = "[[1, 2, 3], [4, 5, 6], [7, 8, 9], [10, 11, 12]] :: frame"
  have h: "rect ?F"
    by (simp add: rect_def shape1_def)
  have t: "astype_int (27 / 10) = 2" "astype_int (- 16 / 10) = - 1"
    by (simp_all add: astype_int_def)
  have s: "shape0 ?F = 4" "shape1 ?F = 3"
    by (simp_all add: shape0_def shape1_def)
  note th = apply_shift_circular [OF h]
  have 1: "apply_shift ?F (27 / 10, - 16 / 10) = circular_translation ?F (2, - 1)"
    using th [of "(27 / 10, - 16 / 10)"] t by simp
  have 2: "apply_shift ?F (27 / 10, - 16 / 10) ! 1 ! 2 = ?F ! 3 ! 0"
    using th [of "(27 / 10, - 16 / 10)", THEN conjunct2, THEN conjunct1, rule_format, of 3 0] t s
    by simp
  have 3: "apply_shift ?F (3, - 2) = circular_translation ?F (3, - 2)"
    using th [of "(3, - 2)", THEN conjunct2, THEN conjunct2, rule_format, of 3 "- 2"]
    by simp
  show ?thesis using h 1 2 3 by blast
qed

text \<open>
  C3 as stated fails where the shift has a fractional part: \<^verbatim>\<open>astype(int)\<close> drops it,
  so the shift \<open>(2.7, -1.6)\<close> rolls the frame by \<open>(2, -1)\<close>, which is neither the shift
  rounded to the nearest pixel \<open>(3, -2)\<close> nor rounded down \<open>(2, -2)\<close> nor rounded up
  \<open>(3, -1)\<close>.
\<close>

theorem apply_shift_rounding_counterexample:
  "apply_shift [[1, 2, 3], [4, 5, 6], [7, 8, 9], [10, 11, 12]] (27 / 10, - 16 / 10)
     = [[8, 9, 7], [11, 12, 10], [2, 3, 1], [5, 6, 4]]
   \<and> circular_translation [[1, 2, 3], [4, 5, 6], [7, 8, 9], [10, 11, 12]]
        (round (27 / 10 :: real), round (- 16 / 10 :: real))
     = [[6, 4, 5], [9, 7, 8], [12, 10, 11], [3, 1, 2]]
   \<and> apply_shift [[1, 2, 3], [4, 5, 6], [7, 8, 9], [10, 11, 12]] (27 / 10, - 16 / 10)
     \<noteq> circular_translation [[1, 2, 3], [4, 5, 6], [7, 8, 9], [10, 11, 12]]
          (round (27 / 10 :: real), round (- 16 / 10 :: real))
   \<and> apply_shift [[1, 2, 3], [4, 5, 6], [7, 8, 9], [10, 11, 12]] (27 / 10, - 16 / 10)
     \<noteq> circular_translation [[1, 2, 3], [4, 5, 6], [7, 8, 9], [10, 11, 12]]
          (\<lfloor>27 / 10 :: real\<rfloor>, \<lfloor>- 16 / 10 :: real\<rfloor>)
   \<and> apply_shift [[1, 2, 3], [4, 5, 6], [7, 8, 9], [10, 11, 12]] (27 / 10, - 16 / 10)
     \<noteq> circular_translation [[1, 2, 3], [4, 5, 6], [7, 8, 9], [10, 11, 12]]
          (\<lceil>27 / 10 :: real\<rceil>, \<lceil>- 16 / 10 :: real\<rceil>)"
  by code_simp









text \<open>
  C7. The code at two inputs whose number of reference frames differs from the number of
  rounds. \<^verbatim>\<open>reg_multiplex.py\<close> only prints the mismatch: with two reference frames and three
  rounds it registers round 1 and writes outputs, where \<^verbatim>\<open>register_multiplex_wsi.py\<close>
  exits. \<^verbatim>\<open>register_multiplex_wsi.py\<close> compares the number of reference frames with the
  largest round id instead of the number of rounds: with two reference frames in the one
  round 2 it registers and writes outputs.
\<close>

theorem count_mismatch_not_fatal:
  "length (filter is_dapi [sample_dapi1, sample_dapi2, sample_cd3_round3]) = 2
   \<and> remdups (map round_id [sample_dapi1, sample_dapi2, sample_cd3_round3]) = [''1'', ''2'', ''3'']
   \<and> main_multiplex sample_estimator remdups 1000 [sample_dapi1, sample_dapi2, sample_cd3_round3]
       = \<lparr>outputs =
            [(''S.2.DAPI.tif'', [[1, 1, 0], [1, 1, 0], [1, 1, 0]]),
             (''S.1.DAPI.tif'', [[0, 0, 0], [2, 0, 1], [4, 0, 3]])],
          fixed_dapi = Some ''S.2.DAPI.tif'',
          displacements = Inr [(''1'', 1 / 2), (''2'', 0), (''3'', 0)]\<rparr>
   \<and> main_wsi sample_estimator remdups 1000 [sample_dapi1, sample_dapi2, sample_cd3_round3]
       = aborted SystemExit
   \<and> length (filter is_dapi [second_dapi2, sample_dapi2]) = 2
   \<and> remdups (map round_id [second_dapi2, sample_dapi2]) = [''2'']
   \<and> main_wsi sample_estimator remdups 1000 [second_dapi2, sample_dapi2]
       = \<lparr>outputs =
            [(''S.2.DAPI.tif'', [[1, 1], [1, 1], [1, 1]]),
             (''T.2.DAPI.tif'', [[0, 0], [2, 1], [4, 3]])],
          fixed_dapi = Some ''S.2.DAPI.tif'',
          displacements = Inr [(''2'', 1 / 2)]\<rparr>"
proof -
  have "length (filter is_dapi [sample_dapi1, sample_dapi2, sample_cd3_round3]) = 2"
    "remdups (map round_id [sample_dapi1, sample_dapi2, sample_cd3_round3]) = [''1'', ''2'', ''3'']"
    "length (filter is_dapi [second_dapi2, sample_dapi2]) = 2"
    "remdups (map round_id [second_dapi2, sample_dapi2]) = [''2'']"
    by code_simp+
  then show ?thesis
    using mismatch_run_multiplex mismatch_run_wsi same_round_run_wsi by (intro conjI)
qed





text \<open>
  C10. For every two-dimensional frame and every integer shift vector, \<^verbatim>\<open>np.roll\<close> along
  both axes returns a frame of the same shape that holds the same multiset of pixel
  values as the input: the entries are permuted, none is created, lost or changed.
\<close>

theorem np_roll_permutes_pixels:
  assumes "rect f"
  shows "shape0 (np_roll f s) = shape0 f \<and> shape1 (np_roll f s) = shape1 f
    \<and> rect (np_roll f s) \<and> mset (concat (np_roll f s)) = mset (concat f)"
  using assms by (simp add: shape0_np_roll shape1_np_roll rect_np_roll mset_np_roll)

theorem np_roll_permutes_pixels_witness:
  "rect [[1, 2, 3], [4, 5, 6]]
   \<and> np_roll [[1, 2, 3], [4, 5, 6]] (1, - 1) = [[5, 6, 4], [2, 3, 1]]
   \<and> shape0 (np_roll [[1, 2, 3], [4, 5, 6]] (1, - 1)) = shape0 [[1, 2, 3], [4, 5, 6]]
   \<and> shape1 (np_roll [[1, 2, 3], [4, 5, 6]] (1, - 1)) = shape1 [[1, 2, 3], [4, 5, 6]]
   \<and> rect (np_roll [[1, 2, 3], [4, 5, 6]] (1, - 1))
   \<and> mset (concat (np_roll [[1, 2, 3], [4, 5, 6]] (1, - 1))) = mset (concat [[1, 2, 3], [4, 5, 6]])"
proof -
  have h: "rect [[1, 2, 3], [4, 5, 6]]"
    by (simp add: rect_def shape1_def)
  have v: "np_roll [[1, 2, 3], [4, 5, 6]] (1, - 1) = [[5, 6, 4], [2, 3, 1]]"
    by (simp add: np_roll_def np_roll1_def)
  show ?thesis
    using h v np_roll_permutes_pixels [OF h, of "(1, - 1)"] by blast
qed

end
